theory Spec2Isabelle
  imports Complex_Main "HOL-Library.Sublist"
begin

section \<open>Python strings\<close>

text \<open>
  A Python \<open>str\<close> is a sequence of Unicode code points, so a string is a list of
  code points here. \<open>S\<close> turns an ASCII literal into such a list.
\<close>

type_synonym pystr = "nat list"

definition S :: "string \<Rightarrow> pystr" where
  "S s = map of_char s"

text \<open>
  \<open>str.isspace\<close> for one code point: the white space of \<open>str.strip()\<close> and
  \<open>str.split()\<close> without arguments (U+0009..U+000D, U+001C..U+0020, U+0085, U+00A0,
  U+1680, U+2000..U+200A, U+2028, U+2029, U+202F, U+205F, U+3000).
\<close>

definition isspace :: "nat \<Rightarrow> bool" where
  "isspace c \<longleftrightarrow>
     (9 \<le> c \<and> c \<le> 13) \<or> (28 \<le> c \<and> c \<le> 32) \<or> c = 133 \<or> c = 160 \<or> c = 5760 \<or>
     (8192 \<le> c \<and> c \<le> 8202) \<or> c = 8232 \<or> c = 8233 \<or> c = 8239 \<or> c = 8287 \<or> c = 12288"

definition py_strip :: "pystr \<Rightarrow> pystr" where
  "py_strip s = rev (dropWhile isspace (rev (dropWhile isspace s)))"

text \<open>\<open>s.replace(old, new)\<close> for a one-character \<open>old\<close>.\<close>

definition py_replace :: "nat \<Rightarrow> pystr \<Rightarrow> pystr \<Rightarrow> pystr" where
  "py_replace old new s = concat (map (\<lambda>c. if c = old then new else [c]) s)"

text \<open>
  \<open>s.split()\<close>: the maximal runs of non-space characters, in order. \<open>split_from w s\<close>
  has read the word \<open>w\<close> so far.
\<close>

fun split_from :: "pystr \<Rightarrow> pystr \<Rightarrow> pystr list" where
  "split_from w [] = (if w = [] then [] else [w])"
| "split_from w (c # cs) =
     (if isspace c then (if w = [] then split_from [] cs else w # split_from [] cs)
      else split_from (w @ [c]) cs)"

definition py_split :: "pystr \<Rightarrow> pystr list" where
  "py_split s = split_from [] s"

fun py_join :: "pystr \<Rightarrow> pystr list \<Rightarrow> pystr" where
  "py_join sep [] = []"
| "py_join sep [w] = w"
| "py_join sep (w # ws) = w @ sep @ py_join sep ws"

text \<open>\<open>p in s\<close> for two strings: \<open>p\<close> occurs in \<open>s\<close> as a contiguous piece.\<close>

definition py_in :: "pystr \<Rightarrow> pystr \<Rightarrow> bool" where
  "py_in p s = sublist p s"


text \<open>
  \<open>s.upper()\<close> maps every code point on its own to its full upper-case form. The ASCII
  part is written out; for the other code points the form comes from the Unicode
  tables of the Python runtime, the parameter \<open>tbl\<close>.
\<close>

definition upper_char :: "(nat \<Rightarrow> pystr) \<Rightarrow> nat \<Rightarrow> pystr" where
  "upper_char tbl c =
     (if 97 \<le> c \<and> c \<le> 122 then [c - 32] else if c < 128 then [c] else tbl c)"

definition py_upper :: "(nat \<Rightarrow> pystr) \<Rightarrow> pystr \<Rightarrow> pystr" where
  "py_upper tbl s = concat (map (upper_char tbl) s)"

text \<open>The table of a runtime in which no code point beyond ASCII has an upper-case form.\<close>

definition caseless :: "nat \<Rightarrow> pystr" where
  "caseless c = [c]"

section \<open>Python values and dictionaries\<close>

text \<open>
  A value of type \<open>Any\<close> as the data processor sees it: \<open>None\<close>, a string, or some
  other object, of which the code only ever uses that it is no string and what
  \<open>str(object)\<close> gives.
\<close>

datatype pyval = PyNone | PyStr pystr | PyObj pystr

datatype error = AttributeError | TypeError | KeyError | JSONDecodeError

text \<open>A dictionary is the list of its items, in insertion order.\<close>

type_synonym 'v dict = "(pystr \<times> 'v) list"

definition dict_get :: "'v dict \<Rightarrow> pystr \<Rightarrow> 'v \<Rightarrow> 'v" where
  "dict_get d k dflt = (case map_of d k of None \<Rightarrow> dflt | Some v \<Rightarrow> v)"

definition dict_has :: "'v dict \<Rightarrow> pystr \<Rightarrow> bool" where
  "dict_has d k = (map_of d k \<noteq> None)"

text \<open>\<open>d[k] = v\<close>: an existing key keeps its place.\<close>

fun dict_set :: "'v dict \<Rightarrow> pystr \<Rightarrow> 'v \<Rightarrow> 'v dict" where
  "dict_set [] k v = [(k, v)]"
| "dict_set ((k', v') # d) k v = (if k' = k then (k, v) # d else (k', v') # dict_set d k v)"

text \<open>\<open>value.strip()\<close> on a value that need not be a string.\<close>

definition strip_method :: "pyval \<Rightarrow> error + pystr" where
  "strip_method v = (case v of PyStr s \<Rightarrow> Inr (py_strip s) | _ \<Rightarrow> Inl AttributeError)"

section \<open>data_processor.py\<close>

text \<open>
  The dataclass \<open>UserRecord\<close>. Python does not enforce the annotations, and the CSV
  loader can leave \<open>None\<close> in \<open>email\<close>, so every field is a string or \<open>None\<close>.
\<close>

record UserRecord =
  email :: "pystr option"
  name :: "pystr option"
  role :: "pystr option"
  last_login :: "pystr option"
  status :: "pystr option"
  extracted_at :: "pystr option"
  source_saas :: "pystr option"

definition clean_text :: "pyval \<Rightarrow> pystr option" where
  "clean_text text =
     (if text = PyNone \<or> text = PyStr (S ''null'') \<or> text = PyStr [] then None
      else case text of
        PyStr s \<Rightarrow>
          (let cleaned = py_replace 9 (S '' '') (py_replace 10 (S '' '') (py_strip s));
               cleaned = py_join (S '' '') (py_split cleaned)
           in if cleaned \<noteq> [] then Some cleaned else None)
      | PyObj r \<Rightarrow> (if py_strip r \<noteq> [] then Some (py_strip r) else None)
      | PyNone \<Rightarrow> None)"

text \<open>The value a call of \<open>clean_text\<close> returns, passed on as an argument.\<close>

definition returned :: "pystr option \<Rightarrow> pyval" where
  "returned r = (case r of None \<Rightarrow> PyNone | Some s \<Rightarrow> PyStr s)"

text \<open>
  The body of the loop of \<open>process_raw_user_data\<close> for one entry: \<open>Inl\<close> is the
  exception that the \<open>except\<close> clause catches, \<open>Inr None\<close> the \<open>continue\<close> after an
  invalid email, \<open>Inr (Some r)\<close> the record that is appended.
\<close>

definition process_entry :: "pystr \<Rightarrow> pyval dict \<Rightarrow> pystr \<Rightarrow> error + UserRecord option" where
  "process_entry current_time user_data saas_name =
     (case strip_method (dict_get user_data (S ''email'') (PyStr [])) of
        Inl e \<Rightarrow> Inl e
      | Inr email' \<Rightarrow>
          if email' = [] \<or> \<not> py_in (S ''@'') email' then Inr None
          else Inr (Some \<lparr>
            email = Some email',
            name = clean_text (dict_get user_data (S ''name'') PyNone),
            role = clean_text (dict_get user_data (S ''role'') PyNone),
            last_login = clean_text (dict_get user_data (S ''last_login'') PyNone),
            status = clean_text (dict_get user_data (S ''status'') (PyStr (S ''Unknown''))),
            extracted_at = Some current_time,
            source_saas = Some saas_name \<rparr>))"

text \<open>\<open>current_time\<close> is the clock reading \<open>datetime.now().isoformat()\<close>.\<close>

fun process_raw_user_data :: "pystr \<Rightarrow> pyval dict list \<Rightarrow> pystr \<Rightarrow> UserRecord list" where
  "process_raw_user_data current_time [] saas_name = []"
| "process_raw_user_data current_time (user_data # raw_users) saas_name =
     (case process_entry current_time user_data saas_name of
        Inr (Some user_record) \<Rightarrow>
          user_record # process_raw_user_data current_time raw_users saas_name
      | _ \<Rightarrow> process_raw_user_data current_time raw_users saas_name)"

text \<open>
  \<open>compare_datasets\<close>. The two lists in the result enumerate Python sets, in an order
  that Python does not fix, so they are sets here. \<open>comparison_date\<close> is the clock
  reading \<open>datetime.now().isoformat()\<close>.
\<close>

record comparison =
  dataset1_count :: nat
  dataset2_count :: nat
  added_users :: "pystr option set"
  removed_users :: "pystr option set"
  common_users_count :: nat
  comparison_date :: pystr

definition compare_datasets :: "pystr \<Rightarrow> UserRecord list \<Rightarrow> UserRecord list \<Rightarrow> comparison" where
  "compare_datasets now dataset1 dataset2 =
     (let emails1 = set (map email dataset1);
          emails2 = set (map email dataset2);
          added = emails2 - emails1;
          removed = emails1 - emails2;
          common_users = emails1 \<inter> emails2
      in \<lparr> dataset1_count = length dataset1,
           dataset2_count = length dataset2,
           added_users = added,
           removed_users = removed,
           common_users_count = card common_users,
           comparison_date = now \<rparr>)"

subsection \<open>Files\<close>





















section \<open>config.py\<close>

text \<open>The dataclass \<open>SaaSConfig\<close>; its field \<open>name\<close> is \<open>saas_name\<close> here.\<close>

record SaaSConfig =
  saas_name :: pystr
  login_url :: pystr
  username_selector :: pystr
  password_selector :: pystr
  login_button_selector :: pystr
  users_page_url :: pystr
  user_table_selector :: pystr
  add_user_button :: pystr
  user_form_selectors :: "pystr dict"

definition dropbox :: SaaSConfig where
  "dropbox = \<lparr>
     saas_name = S ''Dropbox Business'',
     login_url = S ''https://www.dropbox.com/login'',
     username_selector = S ''input[name='login_email']'',
     password_selector = S ''input[name='login_password']'',
     login_button_selector = S ''button[type='submit']'',
     users_page_url = S ''https://www.dropbox.com/manage/admin/members'',
     user_table_selector = S ''table.member-list'',
     add_user_button = S ''button[data-testid='add-member']'',
     user_form_selectors =
       [(S ''email'', S ''input[name='memberEmail']''),
        (S ''name'', S ''input[name='memberName']''),
        (S ''role'', S ''select[name='memberRole']'')] \<rparr>"

definition notion :: SaaSConfig where
  "notion = \<lparr>
     saas_name = S ''Notion Workspace'',
     login_url = S ''https://www.notion.so/login'',
     username_selector = S ''input[type='email']'',
     password_selector = S ''input[type='password']'',
     login_button_selector = S ''div[role='button']:has-text('Continue with password')'',
     users_page_url = S ''https://www.notion.so/my-integrations'',
     user_table_selector = S ''div[data-testid='members-table']'',
     add_user_button = S ''button:has-text('Invite')'',
     user_form_selectors =
       [(S ''email'', S ''input[placeholder='Enter email address']''),
        (S ''role'', S ''select[data-testid='permission-select']'')] \<rparr>"

definition SAAS_CONFIGS :: "SaaSConfig dict" where
  "SAAS_CONFIGS = [(S ''dropbox'', dropbox), (S ''notion'', notion)]"

section \<open>The page driver and the oracle\<close>

text \<open>
  A value that \<open>json.loads\<close> returns. A number is a rational; the code never computes
  with one.
\<close>

datatype json =
  JNull | JBool bool | JNum rat | JStr pystr | JArr "json list" | JObj "(pystr \<times> json) list"

text \<open>The truth value of \<open>j\<close> in a condition.\<close>

fun truthy :: "json \<Rightarrow> bool" where
  "truthy JNull = False"
| "truthy (JBool b) = b"
| "truthy (JNum n) = (n \<noteq> 0)"
| "truthy (JStr s) = (s \<noteq> [])"
| "truthy (JArr xs) = (xs \<noteq> [])"
| "truthy (JObj kvs) = (kvs \<noteq> [])"

text \<open>\<open>key in j\<close> for a string \<open>key\<close>: a \<open>TypeError\<close> where \<open>j\<close> is no container.\<close>

fun contains :: "json \<Rightarrow> pystr \<Rightarrow> error + bool" where
  "contains (JObj kvs) key = Inr (dict_has kvs key)"
| "contains (JArr xs) key = Inr (JStr key \<in> set xs)"
| "contains (JStr s) key = Inr (py_in key s)"
| "contains _ key = Inl TypeError"

text \<open>\<open>j[key]\<close> for a string \<open>key\<close>.\<close>

fun subscript :: "json \<Rightarrow> pystr \<Rightarrow> error + json" where
  "subscript (JObj kvs) key = (case map_of kvs key of None \<Rightarrow> Inl KeyError | Some v \<Rightarrow> Inr v)"
| "subscript _ key = Inl TypeError"

text \<open>
  The condition \<open>ui_elements and "primary_selector" in ui_elements\<close>, which both
  workflows put on every value that \<open>find_ui_elements\<close> returns (\<open>deprovision_user\<close>
  also in the negated form \<open>not x or "primary_selector" not in x\<close>).
\<close>

definition has_primary_selector :: "json \<Rightarrow> error + bool" where
  "has_primary_selector ui_elements =
     (if \<not> truthy ui_elements then Inr False
      else contains ui_elements (S ''primary_selector''))"

text \<open>
  What the oracle answers to the request of \<open>find_ui_elements\<close>: the call raised (also:
  no choice came back, the arguments are no JSON), the message has no function call, or
  the arguments of the function call, parsed.
\<close>

datatype function_reply = CallFailed | NoFunctionCall | FunctionCall json

text \<open>
  What it answers to the request of \<open>validate_action_success\<close>: the call raised, or the
  content of the message, which may be \<open>None\<close>.
\<close>

datatype chat_reply = ChatFailed | ChatContent "pystr option"

text \<open>
  The events of a run, in order: the calls of the workflow to the page driver and to the
  agent, with what the page driver answered, and the waits.
\<close>

datatype event =
    Login pystr pystr bool
  | Navigate bool
  | Content pystr
  | Click json bool
  | Fill "pystr dict" bool
  | Find pystr pystr
  | Validate pystr pystr pystr bool
  | Sleep nat

text \<open>
  The world outside: the methods of \<open>BrowserAutomationHandler\<close>, each of which catches
  every exception of the browser and answers with a value, and the two requests to the
  model. An answer may depend on everything that happened before. \<open>upper_table\<close> is the
  upper-case table of the runtime.
\<close>

record env =
  upper_table :: "nat \<Rightarrow> pystr"
  login_to_saas :: "event list \<Rightarrow> SaaSConfig \<Rightarrow> pystr \<Rightarrow> pystr \<Rightarrow> bool"
  navigate_to_users_page :: "event list \<Rightarrow> SaaSConfig \<Rightarrow> bool"
  extract_page_content :: "event list \<Rightarrow> pystr"
  click_element :: "event list \<Rightarrow> json \<Rightarrow> bool"
  fill_form :: "event list \<Rightarrow> pystr dict \<Rightarrow> bool"
  function_call :: "event list \<Rightarrow> pystr \<Rightarrow> pystr \<Rightarrow> function_reply"
  chat :: "event list \<Rightarrow> pystr \<Rightarrow> pystr \<Rightarrow> pystr \<Rightarrow> chat_reply"

section \<open>ai_agent.py\<close>

text \<open>
  \<open>find_ui_elements\<close>, lines 93 to 150. The prompt holds the task and the first 10000
  characters of the page; every exception gives the empty dictionary.
\<close>

definition find_ui_elements :: "env \<Rightarrow> event list \<Rightarrow> pystr \<Rightarrow> pystr \<Rightarrow> json" where
  "find_ui_elements e t html_content task_description =
     (case function_call e t task_description (take 10000 html_content) of
        CallFailed \<Rightarrow> JObj []
      | NoFunctionCall \<Rightarrow> JObj []
      | FunctionCall result \<Rightarrow>
          (case result of
             JObj kvs \<Rightarrow> dict_get kvs (S ''elements'') (JObj [])
           | _ \<Rightarrow> JObj []))"

text \<open>
  \<open>validate_action_success\<close>, lines 220 to 254. The prompt holds the action and the
  first 5000 characters of each page; \<open>None.strip()\<close> is an exception like the others.
\<close>

definition validate_action_success :: "env \<Rightarrow> event list \<Rightarrow> pystr \<Rightarrow> pystr \<Rightarrow> pystr \<Rightarrow> bool" where
  "validate_action_success e t before_html after_html action_type =
     (case chat e t action_type (take 5000 before_html) (take 5000 after_html) of
        ChatFailed \<Rightarrow> False
      | ChatContent None \<Rightarrow> False
      | ChatContent (Some content) \<Rightarrow>
          (let result = py_upper (upper_table e) (py_strip content)
           in py_in (S ''SUCCESS'') result))"

section \<open>main.py\<close>

text \<open>Each call appends its event to the trace \<open>t\<close> and gives the trace back.\<close>

definition login :: "env \<Rightarrow> event list \<Rightarrow> SaaSConfig \<Rightarrow> pystr \<Rightarrow> pystr \<Rightarrow> bool \<times> event list" where
  "login e t config username password =
     (let ok = login_to_saas e t config username password in (ok, t @ [Login username password ok]))"

definition navigate :: "env \<Rightarrow> event list \<Rightarrow> SaaSConfig \<Rightarrow> bool \<times> event list" where
  "navigate e t config = (let ok = navigate_to_users_page e t config in (ok, t @ [Navigate ok]))"

definition page_content :: "env \<Rightarrow> event list \<Rightarrow> pystr \<times> event list" where
  "page_content e t = (let html = extract_page_content e t in (html, t @ [Content html]))"

definition click :: "env \<Rightarrow> event list \<Rightarrow> json \<Rightarrow> bool \<times> event list" where
  "click e t selector = (let ok = click_element e t selector in (ok, t @ [Click selector ok]))"

definition fill :: "env \<Rightarrow> event list \<Rightarrow> pystr dict \<Rightarrow> bool \<times> event list" where
  "fill e t form_data = (let ok = fill_form e t form_data in (ok, t @ [Fill form_data ok]))"

definition find :: "env \<Rightarrow> event list \<Rightarrow> pystr \<Rightarrow> pystr \<Rightarrow> json \<times> event list" where
  "find e t html task =
     (find_ui_elements e t html task, t @ [Find html task])"

definition validate :: "env \<Rightarrow> event list \<Rightarrow> pystr \<Rightarrow> pystr \<Rightarrow> pystr \<Rightarrow> bool \<times> event list" where
  "validate e t before_html after_html action_type =
     (let ok = validate_action_success e t before_html after_html action_type
      in (ok, t @ [Validate before_html after_html action_type ok]))"

text \<open>
  Acting on what \<open>find_ui_elements\<close> returned: \<open>if ui and "primary_selector" in ui\<close>,
  then \<open>click_element(ui["primary_selector"])\<close>. \<open>Inl\<close> is an exception, which the
  \<open>except\<close> clause of the workflow turns into \<open>return False\<close>; \<open>Inr None\<close> says that the
  condition was false, \<open>Inr (Some ok)\<close> what the click answered.
\<close>

definition click_primary :: "env \<Rightarrow> event list \<Rightarrow> json \<Rightarrow> (error + bool option) \<times> event list" where
  "click_primary e t ui_elements =
     (case has_primary_selector ui_elements of
        Inl err \<Rightarrow> (Inl err, t)
      | Inr False \<Rightarrow> (Inr None, t)
      | Inr True \<Rightarrow>
          (case subscript ui_elements (S ''primary_selector'') of
             Inl err \<Rightarrow> (Inl err, t)
           | Inr selector \<Rightarrow> (let (ok, t) = click e t selector in (Inr (Some ok), t))))"

text \<open>
  Lines 142 to 161 of \<open>provision_user\<close>: the button of the configuration first, the
  oracle if that click fails. The result is \<open>add_user_success\<close> after the block.
\<close>

definition click_add_user :: "env \<Rightarrow> event list \<Rightarrow> SaaSConfig \<Rightarrow> (error + bool) \<times> event list" where
  "click_add_user e t saas_config =
     (let (add_user_success, t) = click e t (JStr (add_user_button saas_config))
      in if add_user_success then (Inr True, t)
         else
           (let (html, t) = page_content e t;
                (ui_elements, t) = find e t html
                   (S ''Find the button to add a new user in the '' @ saas_name saas_config
                      @ S '' admin portal'')
            in case click_primary e t ui_elements of
                 (Inl err, t) \<Rightarrow> (Inl err, t)
               | (Inr None, t) \<Rightarrow> (Inr False, t)
               | (Inr (Some ok), t) \<Rightarrow> (Inr ok, t)))"

text \<open>Lines 166 to 170: the form data, keyed by selector.\<close>

fun form_data_of :: "pystr dict \<Rightarrow> pystr dict \<Rightarrow> pystr dict \<Rightarrow> pystr dict" where
  "form_data_of [] user_details form_data = form_data"
| "form_data_of ((field, selector) # items) user_details form_data =
     form_data_of items user_details
       (case map_of user_details field of
          None \<Rightarrow> form_data
        | Some v \<Rightarrow> dict_set form_data selector v)"

text \<open>
  Lines 178 to 196: the submit button, which only the oracle can find. \<open>Inr True\<close> when
  the click succeeded, \<open>Inr False\<close> for the two \<open>return False\<close>.
\<close>

definition click_submit :: "env \<Rightarrow> event list \<Rightarrow> (error + bool) \<times> event list" where
  "click_submit e t =
     (let (html, t) = page_content e t;
          (submit_ui, t) = find e t html (S ''Find the submit or save button for the user form'')
      in case click_primary e t submit_ui of
           (Inl err, t) \<Rightarrow> (Inl err, t)
         | (Inr None, t) \<Rightarrow> (Inr False, t)
         | (Inr (Some ok), t) \<Rightarrow> (Inr ok, t))"

text \<open>\<open>provision_user\<close>: the result and the events of the run.\<close>

definition provision_user :: "env \<Rightarrow> pystr \<Rightarrow> pystr dict \<Rightarrow> pystr dict \<Rightarrow> bool \<times> event list" where
  "provision_user e saas_id credentials user_details =
     (case map_of SAAS_CONFIGS saas_id of
        None \<Rightarrow> (False, [])
      | Some saas_config \<Rightarrow>
          (let (login_success, t) = login e [] saas_config
                 (dict_get credentials (S ''username'') []) (dict_get credentials (S ''password'') [])
           in if \<not> login_success then (False, t)
           else
             (let (nav_success, t) = navigate e t saas_config
              in if \<not> nav_success then (False, t)
              else
                (let (before_html, t) = page_content e t
                 in case click_add_user e t saas_config of
                      (Inl err, t) \<Rightarrow> (False, t)
                    | (Inr False, t) \<Rightarrow> (False, t)
                    | (Inr True, t) \<Rightarrow>
                        (let t = t @ [Sleep 2];
                             form_data = form_data_of (user_form_selectors saas_config) user_details [];
                             (form_fill_success, t) = fill e t form_data
                         in if \<not> form_fill_success then (False, t)
                         else
                           (case click_submit e t of
                              (Inl err, t) \<Rightarrow> (False, t)
                            | (Inr False, t) \<Rightarrow> (False, t)
                            | (Inr True, t) \<Rightarrow>
                                (let t = t @ [Sleep 3];
                                     (after_html, t) = page_content e t
                                 in validate e t before_html after_html
                                      (S ''Adding user ''
                                         @ dict_get user_details (S ''email'') (S ''unknown'')))))))))"

text \<open>
  \<open>deprovision_user\<close>. The clicks on the row and on the confirmation button are issued
  and their answers are not looked at.
\<close>

definition deprovision_user :: "env \<Rightarrow> pystr \<Rightarrow> pystr dict \<Rightarrow> pystr \<Rightarrow> bool \<times> event list" where
  "deprovision_user e saas_id credentials user_email =
     (case map_of SAAS_CONFIGS saas_id of
        None \<Rightarrow> (False, [])
      | Some saas_config \<Rightarrow>
          (let (login_success, t) = login e [] saas_config
                 (dict_get credentials (S ''username'') []) (dict_get credentials (S ''password'') [])
           in if \<not> login_success then (False, t)
           else
             (let (nav_success, t) = navigate e t saas_config
              in if \<not> nav_success then (False, t)
              else
                (let (before_html, t) = page_content e t;
                     (user_row_info, t) = find e t before_html
                        (S ''Find the row or entry for user with email '' @ user_email)
                 in case click_primary e t user_row_info of
                      (Inl err, t) \<Rightarrow> (False, t)
                    | (Inr None, t) \<Rightarrow> (False, t)
                    | (Inr (Some row_clicked), t) \<Rightarrow>
                        (let (updated_html, t) = page_content e t;
                             (delete_button_info, t) = find e t updated_html
                                (S ''Find the delete, remove, or deactivate button for user '' @ user_email)
                         in case click_primary e t delete_button_info of
                              (Inl err, t) \<Rightarrow> (False, t)
                            | (Inr None, t) \<Rightarrow> (False, t)
                            | (Inr (Some False), t) \<Rightarrow> (False, t)
                            | (Inr (Some True), t) \<Rightarrow>
                                (let t = t @ [Sleep 1];
                                     (dialog_html, t) = page_content e t;
                                     (confirm_button_info, t) = find e t dialog_html
                                        (S ''Find the confirm, yes, or ok button in the confirmation dialog'')
                                 in case click_primary e t confirm_button_info of
                                      (Inl err, t) \<Rightarrow> (False, t)
                                    | (Inr confirmed, t) \<Rightarrow>
                                        (let t = t @ [Sleep 3];
                                             (after_html, t) = page_content e t
                                         in validate e t before_html after_html
                                              (S ''Removing user '' @ user_email))))))))"

section \<open>Reading a trace\<close>


fun is_find :: "event \<Rightarrow> bool" where
  "is_find (Find html task) = True"
| "is_find _ = False"

text \<open>The number of times the workflow consulted the oracle for a selector.\<close>

definition finds :: "event list \<Rightarrow> nat" where
  "finds t = length (filter is_find t)"

text \<open>The answers to the clicks, in order.\<close>

fun click_results :: "event list \<Rightarrow> bool list" where
  "click_results [] = []"
| "click_results (Click selector ok # t) = ok # click_results t"
| "click_results (ev # t) = click_results t"






section \<open>Three worlds\<close>

text \<open>
  A portal on which every click works and the form cannot be filled; the oracle is down.
\<close>

definition form_fails :: env where
  "form_fails = \<lparr>
     upper_table = caseless,
     login_to_saas = (\<lambda>t config username password. True),
     navigate_to_users_page = (\<lambda>t config. True),
     extract_page_content = (\<lambda>t. S ''<html>''),
     click_element = (\<lambda>t selector. True),
     fill_form = (\<lambda>t form_data. False),
     function_call = (\<lambda>t task html. CallFailed),
     chat = (\<lambda>t action before_html after_html. ChatFailed) \<rparr>"

text \<open>
  A portal whose add button is not where the configuration of Dropbox says. The oracle
  answers every request for a selector with \<open>#btn\<close> and the confidence 0, and every
  validation with \<open>SUCCESS\<close>.
\<close>

definition low_confidence :: env where
  "low_confidence = \<lparr>
     upper_table = caseless,
     login_to_saas = (\<lambda>t config username password. True),
     navigate_to_users_page = (\<lambda>t config. True),
     extract_page_content = (\<lambda>t. S ''<html>''),
     click_element = (\<lambda>t selector. selector \<noteq> JStr (add_user_button dropbox)),
     fill_form = (\<lambda>t form_data. True),
     function_call = (\<lambda>t task html. FunctionCall (JObj [(S ''elements'',
        JObj [(S ''primary_selector'', JStr (S ''#btn'')), (S ''confidence'', JNum 0)])])),
     chat = (\<lambda>t action before_html after_html. ChatContent (Some (S ''SUCCESS''))) \<rparr>"

text \<open>The same portal with an oracle that finds nothing.\<close>

definition no_candidate :: env where
  "no_candidate = low_confidence \<lparr> function_call := (\<lambda>t task html. CallFailed) \<rparr>"

text \<open>An oracle that answers every validation with \<open>unsuccessful\<close>.\<close>

definition says_unsuccessful :: env where
  "says_unsuccessful =
     form_fails \<lparr> chat := (\<lambda>t action before_html after_html. ChatContent (Some (S ''unsuccessful''))) \<rparr>"

text \<open>An oracle that answers every validation with \<open>FAILED\<close>, a dash and a reason.\<close>

definition says_failed :: env where
  "says_failed =
     form_fails \<lparr> chat := (\<lambda>t action before_html after_html.
        ChatContent (Some (S ''FAILED '' @ 8212 # S '' no new row appeared''))) \<rparr>"

section \<open>Properties of the data processor\<close>

lemma py_in_single: "py_in [c] s \<longleftrightarrow> c \<in> set s"
  unfolding py_in_def by (induction s) (auto simp: sublist_Cons_right)

lemma at_def: "S ''@'' = [64]" by (simp add: S_def)

lemma set_dropWhile_keep: "\<not> P x \<Longrightarrow> x \<in> set (dropWhile P xs) \<longleftrightarrow> x \<in> set xs"
  by (induction xs) auto

lemma at_in_strip: "py_in (S ''@'') (py_strip s) \<longleftrightarrow> py_in (S ''@'') s"
  by (simp add: at_def py_in_single py_strip_def set_dropWhile_keep isspace_def)

lemma strip_Nil: "py_strip [] = []" by (simp add: py_strip_def)

lemma process_append:
  "process_raw_user_data t (xs @ ys) n = process_raw_user_data t xs n @ process_raw_user_data t ys n"
  by (induction xs) (auto split: sum.splits option.splits)

lemma process_entry_email:
  "process_entry t d n = Inr (Some u) \<Longrightarrow> \<exists>e. email u = Some e \<and> e \<noteq> [] \<and> py_in (S ''@'') e"
  by (auto simp: process_entry_def split: sum.splits if_splits)

lemma process_emails:
  "u \<in> set (process_raw_user_data t raw n) \<Longrightarrow> \<exists>e. email u = Some e \<and> e \<noteq> [] \<and> py_in (S ''@'') e"
  by (induction raw) (auto split: sum.splits option.splits dest: process_entry_email)

lemma process_entry_rejected:
  assumes "map_of d (S ''email'') = None
     \<or> (\<exists>s. map_of d (S ''email'') = Some (PyStr s) \<and> (s = [] \<or> \<not> py_in (S ''@'') s))
     \<or> (\<forall>s. map_of d (S ''email'') \<noteq> Some (PyStr s))"
  shows "process_entry t d n = Inl AttributeError \<or> process_entry t d n = Inr None"
  using assms
  by (auto simp: process_entry_def dict_get_def strip_method_def at_in_strip strip_Nil
      split: option.splits pyval.splits)

text \<open>
  Claim C1. Every record that \<open>process_raw_user_data\<close> returns has an email that is a
  non-empty string containing \<open>@\<close>, and a raw entry whose email is missing, is no string,
  is empty or has no \<open>@\<close> leaves no record: the output is that of the list without it.
\<close>

theorem process_raw_user_data_emails:
  "(\<forall>u \<in> set (process_raw_user_data t raw n). \<exists>e. email u = Some e \<and> e \<noteq> [] \<and> py_in (S ''@'') e) \<and>
   (map_of d (S ''email'') = None
     \<or> (\<exists>s. map_of d (S ''email'') = Some (PyStr s) \<and> (s = [] \<or> \<not> py_in (S ''@'') s))
     \<or> (\<forall>s. map_of d (S ''email'') \<noteq> Some (PyStr s))
    \<longrightarrow> process_raw_user_data t (xs @ d # ys) n = process_raw_user_data t (xs @ ys) n)"
proof (intro conjI ballI impI)
  fix u assume "u \<in> set (process_raw_user_data t raw n)"
  then show "\<exists>e. email u = Some e \<and> e \<noteq> [] \<and> py_in (S ''@'') e" by (rule process_emails)
next
  assume "map_of d (S ''email'') = None
     \<or> (\<exists>s. map_of d (S ''email'') = Some (PyStr s) \<and> (s = [] \<or> \<not> py_in (S ''@'') s))
     \<or> (\<forall>s. map_of d (S ''email'') \<noteq> Some (PyStr s))"
  from process_entry_rejected[OF this, of t n]
  have "process_raw_user_data t [d] n = []" by auto
  then show "process_raw_user_data t (xs @ d # ys) n = process_raw_user_data t (xs @ ys) n"
    using process_append[of t xs "[d] @ ys" n] process_append[of t "[d]" ys n] process_append[of t xs ys n]
    by simp
qed

lemma process_entry_valid:
  assumes "map_of d (S ''email'') = Some (PyStr s)" "py_in (S ''@'') s"
  shows "process_entry t d n = Inr (Some \<lparr>
            email = Some (py_strip s),
            name = clean_text (dict_get d (S ''name'') PyNone),
            role = clean_text (dict_get d (S ''role'') PyNone),
            last_login = clean_text (dict_get d (S ''last_login'') PyNone),
            status = clean_text (dict_get d (S ''status'') (PyStr (S ''Unknown''))),
            extracted_at = Some t,
            source_saas = Some n \<rparr>)"
proof -
  have "py_in (S ''@'') (py_strip s)" using assms(2) by (simp add: at_in_strip)
  moreover from this have "py_strip s \<noteq> []" by (auto simp: at_def py_in_single)
  ultimately show ?thesis using assms(1)
    by (simp add: process_entry_def dict_get_def strip_method_def)
qed

lemma clean_Unknown: "clean_text (PyStr (S ''Unknown'')) = Some (S ''Unknown'')"
  by (simp add: clean_text_def S_def py_strip_def isspace_def py_replace_def py_split_def)

text \<open>
  Claim C9. An entry with a valid email gives one record, in its place. Its status is
  \<open>Unknown\<close> when the entry has no \<open>status\<close> key, and \<open>None\<close> when the key is there with
  \<open>None\<close>, the empty string or \<open>null\<close>; a missing \<open>name\<close>, \<open>role\<close> or \<open>last_login\<close> gives
  \<open>None\<close>.
\<close>

theorem status_default_unknown:
  assumes "map_of d (S ''email'') = Some (PyStr s)" and "py_in (S ''@'') s"
  shows "\<exists>u. process_raw_user_data t (xs @ d # ys) n
              = process_raw_user_data t xs n @ u # process_raw_user_data t ys n \<and>
     (map_of d (S ''status'') = None \<longrightarrow> status u = Some (S ''Unknown'')) \<and>
     (map_of d (S ''status'') = Some PyNone \<or> map_of d (S ''status'') = Some (PyStr [])
        \<or> map_of d (S ''status'') = Some (PyStr (S ''null'')) \<longrightarrow> status u = None) \<and>
     (map_of d (S ''name'') = None \<longrightarrow> name u = None) \<and>
     (map_of d (S ''role'') = None \<longrightarrow> role u = None) \<and>
     (map_of d (S ''last_login'') = None \<longrightarrow> last_login u = None)"
proof -
  let ?u = "\<lparr> email = Some (py_strip s),
            name = clean_text (dict_get d (S ''name'') PyNone),
            role = clean_text (dict_get d (S ''role'') PyNone),
            last_login = clean_text (dict_get d (S ''last_login'') PyNone),
            status = clean_text (dict_get d (S ''status'') (PyStr (S ''Unknown''))),
            extracted_at = Some t,
            source_saas = Some n \<rparr>"
  have one: "process_raw_user_data t [d] n = [?u]"
    using process_entry_valid[OF assms, of t n] by simp
  have "process_raw_user_data t (xs @ d # ys) n
          = process_raw_user_data t xs n @ ?u # process_raw_user_data t ys n"
    using process_append[of t xs "[d] @ ys" n] process_append[of t "[d]" ys n] one by simp
  moreover have "map_of d (S ''status'') = None \<longrightarrow> status ?u = Some (S ''Unknown'')"
    by (simp add: dict_get_def clean_Unknown)
  moreover have "map_of d (S ''status'') = Some PyNone \<or> map_of d (S ''status'') = Some (PyStr [])
        \<or> map_of d (S ''status'') = Some (PyStr (S ''null'')) \<longrightarrow> status ?u = None"
    by (auto simp: dict_get_def clean_text_def)
  moreover have "map_of d (S ''name'') = None \<longrightarrow> name ?u = None"
    by (simp add: dict_get_def clean_text_def)
  moreover have "map_of d (S ''role'') = None \<longrightarrow> role ?u = None"
    by (simp add: dict_get_def clean_text_def)
  moreover have "map_of d (S ''last_login'') = None \<longrightarrow> last_login ?u = None"
    by (simp add: dict_get_def clean_text_def)
  ultimately show ?thesis by (intro exI[of _ ?u] conjI)
qed


theorem process_raw_user_data_emails_witness:
  "(\<exists>u \<in> set (process_raw_user_data (S ''t'')
        [[(S ''email'', PyStr (S '' a@x.com ''))], [(S ''email'', PyStr (S ''bad''))]] (S ''Dropbox'')).
      email u = Some (S ''a@x.com'') \<and> S ''a@x.com'' \<noteq> [] \<and> py_in (S ''@'') (S ''a@x.com'')) \<and>
   map_of [(S ''email'', PyStr (S ''bad''))] (S ''email'') = Some (PyStr (S ''bad'')) \<and>
   \<not> py_in (S ''@'') (S ''bad'') \<and>
   process_raw_user_data (S ''t'')
        ([[(S ''email'', PyStr (S '' a@x.com ''))]] @ [(S ''email'', PyStr (S ''bad''))] # []) (S ''Dropbox'')
     = process_raw_user_data (S ''t'') ([[(S ''email'', PyStr (S '' a@x.com ''))]] @ []) (S ''Dropbox'')"
proof -
  have bad: "\<not> py_in (S ''@'') (S ''bad'')"
    by (simp add: at_def py_in_single) (simp add: S_def)
  have good: "py_in (S ''@'') (S '' a@x.com '')"
    by (simp add: at_def py_in_single) (simp add: S_def)
  have strip: "py_strip (S '' a@x.com '') = S ''a@x.com''"
    by (simp add: S_def py_strip_def isspace_def)
  have k: "S ''email'' \<noteq> S ''status''" "S ''email'' \<noteq> S ''name''" "S ''email'' \<noteq> S ''role''"
    "S ''email'' \<noteq> S ''last_login''"
    by (simp_all add: S_def)
  have e1: "process_entry (S ''t'') [(S ''email'', PyStr (S '' a@x.com ''))] (S ''Dropbox'')
     = Inr (Some \<lparr> email = Some (S ''a@x.com''), name = None, role = None, last_login = None,
           status = Some (S ''Unknown''), extracted_at = Some (S ''t''),
           source_saas = Some (S ''Dropbox'') \<rparr>)"
    using process_entry_valid[of "[(S ''email'', PyStr (S '' a@x.com ''))]" "S '' a@x.com ''", OF _ good] k
    by (simp add: strip dict_get_def clean_Unknown) (simp add: clean_text_def)
  have e2: "process_entry (S ''t'') [(S ''email'', PyStr (S ''bad''))] (S ''Dropbox'') = Inr None"
    using bad by (simp add: process_entry_def dict_get_def strip_method_def at_in_strip)
  have run: "process_raw_user_data (S ''t'')
        [[(S ''email'', PyStr (S '' a@x.com ''))], [(S ''email'', PyStr (S ''bad''))]] (S ''Dropbox'')
     = [\<lparr> email = Some (S ''a@x.com''), name = None, role = None, last_login = None,
           status = Some (S ''Unknown''), extracted_at = Some (S ''t''),
           source_saas = Some (S ''Dropbox'') \<rparr>]"
    by (simp add: e1 e2)
  have "py_in (S ''@'') (S ''a@x.com'')" using good strip at_in_strip[of "S '' a@x.com ''"] by simp
  moreover have "S ''a@x.com'' \<noteq> []" by (simp add: S_def)
  ultimately show ?thesis
    using process_raw_user_data_emails[of "S ''t''" "[]" "S ''Dropbox''" "[(S ''email'', PyStr (S ''bad''))]"
             "[[(S ''email'', PyStr (S '' a@x.com ''))]]" "[]"] bad run
    by simp
qed

theorem status_default_unknown_witness:
  "map_of [(S ''email'', PyStr (S ''a@x.com''))] (S ''email'') = Some (PyStr (S ''a@x.com'')) \<and>
   py_in (S ''@'') (S ''a@x.com'') \<and>
   map_of [(S ''email'', PyStr (S ''a@x.com''))] (S ''status'') = None \<and>
   map_of [(S ''email'', PyStr (S ''a@x.com''))] (S ''name'') = None \<and>
   (\<exists>u. process_raw_user_data (S ''t'') [[(S ''email'', PyStr (S ''a@x.com''))]] (S ''Dropbox'') = [u] \<and>
        status u = Some (S ''Unknown'') \<and> name u = None \<and> role u = None \<and> last_login u = None) \<and>
   map_of [(S ''email'', PyStr (S ''a@x.com'')), (S ''status'', PyStr (S ''null''))] (S ''status'')
     = Some (PyStr (S ''null'')) \<and>
   (\<exists>u. process_raw_user_data (S ''t'')
          [[(S ''email'', PyStr (S ''a@x.com'')), (S ''status'', PyStr (S ''null''))]] (S ''Dropbox'') = [u] \<and>
        status u = None)"
proof -
  have good: "py_in (S ''@'') (S ''a@x.com'')"
    by (simp add: at_def py_in_single) (simp add: S_def)
  have k: "S ''email'' \<noteq> S ''status''" "S ''email'' \<noteq> S ''name''" "S ''email'' \<noteq> S ''role''"
    "S ''email'' \<noteq> S ''last_login''"
    by (simp_all add: S_def)
  show ?thesis
    using status_default_unknown[of "[(S ''email'', PyStr (S ''a@x.com''))]" "S ''a@x.com''" "S ''t''" "[]" "[]" "S ''Dropbox''"]
          status_default_unknown[of "[(S ''email'', PyStr (S ''a@x.com'')), (S ''status'', PyStr (S ''null''))]"
                "S ''a@x.com''" "S ''t''" "[]" "[]" "S ''Dropbox''"]
          good k
    by auto
qed

lemma strip_spaces: "list_all isspace s \<Longrightarrow> py_strip s = []"
proof -
  assume "list_all isspace s"
  then have h: "dropWhile isspace s = []" by (simp add: list_all_iff)
  show ?thesis unfolding py_strip_def h by simp
qed

lemma clean_text_absent:
  "clean_text (PyStr []) = None" "clean_text (PyStr (S ''null'')) = None"
  "list_all isspace s \<Longrightarrow> clean_text (PyStr s) = None"
  by (simp_all add: clean_text_def strip_spaces py_replace_def py_split_def)

text \<open>
  Claim C4. \<open>clean_text\<close> is not idempotent: the test for \<open>null\<close> comes before the white
  space is removed and is not repeated after it, unlike the test for the empty string.
  So \<open>' null '\<close> is cleaned to the string \<open>null\<close>, which a second call turns into \<open>None\<close>.
\<close>

theorem clean_text_not_idempotent:
  "clean_text (PyStr (S '' null '')) = Some (S ''null'') \<and>
   clean_text (returned (clean_text (PyStr (S '' null '')))) = None"
  by (simp add: clean_text_def returned_def S_def py_strip_def isspace_def py_replace_def py_split_def)

text \<open>
  Claim C8. \<open>compare_datasets\<close> reports as added the emails of the second dataset that
  are not in the first, as removed those of the first that are not in the second, and
  counts the common emails once each; for the email sets \<open>{a@x.com, b@x.com}\<close> and
  \<open>{b@x.com, c@x.com}\<close> that is \<open>{c@x.com}\<close>, \<open>{a@x.com}\<close> and 1.
\<close>

theorem compare_datasets_sets:
  "added_users (compare_datasets now A B) = email ` set B - email ` set A \<and>
   removed_users (compare_datasets now A B) = email ` set A - email ` set B \<and>
   common_users_count (compare_datasets now A B) = card (email ` set A \<inter> email ` set B) \<and>
   (email ` set A = {Some (S ''a@x.com''), Some (S ''b@x.com'')} \<and>
    email ` set B = {Some (S ''b@x.com''), Some (S ''c@x.com'')} \<longrightarrow>
      added_users (compare_datasets now A B) = {Some (S ''c@x.com'')} \<and>
      removed_users (compare_datasets now A B) = {Some (S ''a@x.com'')} \<and>
      common_users_count (compare_datasets now A B) = 1)"
proof -
  have ne: "S ''a@x.com'' \<noteq> S ''b@x.com''" "S ''b@x.com'' \<noteq> S ''c@x.com''" "S ''a@x.com'' \<noteq> S ''c@x.com''"
    by (simp_all add: S_def)
  have g: "added_users (compare_datasets now A B) = email ` set B - email ` set A"
     "removed_users (compare_datasets now A B) = email ` set A - email ` set B"
     "common_users_count (compare_datasets now A B) = card (email ` set A \<inter> email ` set B)"
    by (simp_all add: compare_datasets_def Let_def)
  have "{Some (S ''a@x.com''), Some (S ''b@x.com'')} \<inter> {Some (S ''b@x.com''), Some (S ''c@x.com'')}
      = {Some (S ''b@x.com'')}" using ne by auto
  then show ?thesis using ne unfolding g by auto
qed

theorem compare_datasets_sets_witness:
  "email ` set [\<lparr>email = Some (S ''a@x.com''), name = None, role = None, last_login = None, status = None,
                  extracted_at = None, source_saas = None\<rparr>,
                \<lparr>email = Some (S ''b@x.com''), name = None, role = None, last_login = None, status = None,
                  extracted_at = None, source_saas = None\<rparr>]
     = {Some (S ''a@x.com''), Some (S ''b@x.com'')} \<and>
   email ` set [\<lparr>email = Some (S ''b@x.com''), name = None, role = None, last_login = None, status = None,
                  extracted_at = None, source_saas = None\<rparr>,
                \<lparr>email = Some (S ''c@x.com''), name = None, role = None, last_login = None, status = None,
                  extracted_at = None, source_saas = None\<rparr>,
                \<lparr>email = Some (S ''b@x.com''), name = Some (S ''B''), role = None, last_login = None, status = None,
                  extracted_at = None, source_saas = None\<rparr>]
     = {Some (S ''b@x.com''), Some (S ''c@x.com'')} \<and>
   added_users (compare_datasets (S ''now'')
       [\<lparr>email = Some (S ''a@x.com''), name = None, role = None, last_login = None, status = None,
                  extracted_at = None, source_saas = None\<rparr>,
                \<lparr>email = Some (S ''b@x.com''), name = None, role = None, last_login = None, status = None,
                  extracted_at = None, source_saas = None\<rparr>]
       [\<lparr>email = Some (S ''b@x.com''), name = None, role = None, last_login = None, status = None,
                  extracted_at = None, source_saas = None\<rparr>,
                \<lparr>email = Some (S ''c@x.com''), name = None, role = None, last_login = None, status = None,
                  extracted_at = None, source_saas = None\<rparr>,
                \<lparr>email = Some (S ''b@x.com''), name = Some (S ''B''), role = None, last_login = None, status = None,
                  extracted_at = None, source_saas = None\<rparr>]) = {Some (S ''c@x.com'')}"
  using compare_datasets_sets[of "S ''now''"
       "[\<lparr>email = Some (S ''a@x.com''), name = None, role = None, last_login = None, status = None,
                  extracted_at = None, source_saas = None\<rparr>,
                \<lparr>email = Some (S ''b@x.com''), name = None, role = None, last_login = None, status = None,
                  extracted_at = None, source_saas = None\<rparr>]"
       "[\<lparr>email = Some (S ''b@x.com''), name = None, role = None, last_login = None, status = None,
                  extracted_at = None, source_saas = None\<rparr>,
                \<lparr>email = Some (S ''c@x.com''), name = None, role = None, last_login = None, status = None,
                  extracted_at = None, source_saas = None\<rparr>,
                \<lparr>email = Some (S ''b@x.com''), name = Some (S ''B''), role = None, last_login = None, status = None,
                  extracted_at = None, source_saas = None\<rparr>]"]
  by auto

section \<open>Properties of the files\<close>























section \<open>Properties of the workflows\<close>


lemmas calls = login_def navigate_def page_content_def click_def fill_def find_def validate_def

lemma click_primary_cases:
  "click_primary e t ui = (Inl err, t') \<Longrightarrow> t' = t"
  "click_primary e t ui = (Inr None, t') \<Longrightarrow> t' = t"
  "click_primary e t ui = (Inr (Some ok), t') \<Longrightarrow> \<exists>sel. t' = t @ [Click sel ok]"
  by (auto simp: click_primary_def calls Let_def split: sum.splits bool.splits)

lemma click_results_append: "click_results (t @ u) = click_results t @ click_results u"
  by (induction t rule: click_results.induct) auto



lemmas run_simps =
  provision_user_def deprovision_user_def SAAS_CONFIGS_def dropbox_def notion_def
  form_fails_def low_confidence_def no_candidate_def says_unsuccessful_def says_failed_def
  click_add_user_def click_submit_def click_primary_def has_primary_selector_def
  find_ui_elements_def validate_action_success_def py_upper_def upper_char_def caseless_def
  py_strip_def isspace_def py_in_def sublist_Cons_right dict_has_def
  login_def navigate_def page_content_def click_def fill_def find_def validate_def Let_def
  dict_get_def S_def

subsection \<open>The phases of a run\<close>











subsection \<open>Acceptance of a candidate\<close>



lemma dict_set_not_Nil: "dict_set d k v \<noteq> []"
  by (cases d) (auto split: if_splits)







subsection \<open>Validation of an action\<close>

text \<open>
  Claim C3, as the code has it. \<open>validate_action_success\<close> is true exactly when the oracle
  gave a content whose stripped upper-case form has \<open>SUCCESS\<close> somewhere in it, and false
  otherwise, also when the call failed; there are two outcomes only. The response
  \<open>FAILED\<close>, dash, \<open>no new row appeared\<close> gives false (the dash has no upper-case form).
\<close>

theorem validate_by_substring:
  "validate_action_success e t b a k =
     (\<exists>content. chat e t k (take 5000 b) (take 5000 a) = ChatContent (Some content) \<and>
        py_in (S ''SUCCESS'') (py_upper (upper_table e) (py_strip content))) \<and>
   (upper_table e 8212 = [8212] \<and>
    chat e t k (take 5000 b) (take 5000 a)
      = ChatContent (Some (S ''FAILED '' @ 8212 # S '' no new row appeared''))
    \<longrightarrow> \<not> validate_action_success e t b a k)"
proof
  show "validate_action_success e t b a k =
     (\<exists>content. chat e t k (take 5000 b) (take 5000 a) = ChatContent (Some content) \<and>
        py_in (S ''SUCCESS'') (py_upper (upper_table e) (py_strip content)))"
    by (auto simp: validate_action_success_def Let_def split: chat_reply.splits option.splits)
  show "upper_table e 8212 = [8212] \<and>
    chat e t k (take 5000 b) (take 5000 a)
      = ChatContent (Some (S ''FAILED '' @ 8212 # S '' no new row appeared''))
    \<longrightarrow> \<not> validate_action_success e t b a k"
  proof
    assume h: "upper_table e 8212 = [8212] \<and>
    chat e t k (take 5000 b) (take 5000 a)
      = ChatContent (Some (S ''FAILED '' @ 8212 # S '' no new row appeared''))"
    have s: "py_strip (S ''FAILED '' @ 8212 # S '' no new row appeared'')
        = S ''FAILED '' @ 8212 # S '' no new row appeared''"
      by (simp add: py_strip_def isspace_def S_def)
    have u: "py_upper (upper_table e) (S ''FAILED '' @ 8212 # S '' no new row appeared'')
        = S ''FAILED '' @ 8212 # S '' NO NEW ROW APPEARED''"
      using h by (simp add: py_upper_def upper_char_def S_def)
    have n: "\<not> py_in (S ''SUCCESS'') (S ''FAILED '' @ 8212 # S '' NO NEW ROW APPEARED'')"
      by (simp add: py_in_def sublist_Cons_right S_def)
    show "\<not> validate_action_success e t b a k"
      using h n by (simp add: validate_action_success_def Let_def s u)
  qed
qed

theorem validate_by_substring_witness:
  "upper_table says_failed 8212 = [8212] \<and>
   chat says_failed [] (S ''Adding user a@x.com'') (take 5000 (S ''<html>'')) (take 5000 (S ''<html>''))
     = ChatContent (Some (S ''FAILED '' @ 8212 # S '' no new row appeared'')) \<and>
   \<not> validate_action_success says_failed [] (S ''<html>'') (S ''<html>'') (S ''Adding user a@x.com'')"
proof -
  have h1: "upper_table says_failed 8212 = [8212]"
    by (simp add: says_failed_def form_fails_def caseless_def)
  have h2: "chat says_failed [] (S ''Adding user a@x.com'') (take 5000 (S ''<html>'')) (take 5000 (S ''<html>''))
     = ChatContent (Some (S ''FAILED '' @ 8212 # S '' no new row appeared''))"
    by (simp add: says_failed_def form_fails_def)
  show ?thesis
    using validate_by_substring[of says_failed "[]" "S ''<html>''" "S ''<html>''" "S ''Adding user a@x.com''"]
      h1 h2 by blast
qed

text \<open>
  A response against Claim C3 as stated: the oracle answers \<open>unsuccessful\<close>, which is not the
  word \<open>SUCCESS\<close> in any case, and the action is taken as validated.
\<close>

theorem unsuccessful_accepted:
  "validate_action_success says_unsuccessful [] (S ''<html>'') (S ''<html>'') (S ''Adding user a@x.com'') \<and>
   py_upper (upper_table says_unsuccessful) (py_strip (S ''unsuccessful'')) = S ''UNSUCCESSFUL'' \<and>
   S ''UNSUCCESSFUL'' \<noteq> S ''SUCCESS''"
  by (simp add: run_simps)


subsection \<open>Static locators and the oracle\<close>


lemma finds_append: "finds (t @ u) = finds t + finds u"
  by (simp add: finds_def)

text \<open>
  Claim C6, as the code has it, for the add-user button, the one control with a static
  locator and an oracle behind it. When the click on the static locator succeeds, the step
  is over with that one click and the oracle is not consulted. When it fails, the oracle
  is consulted exactly once, and at most one more click is issued.
\<close>

theorem add_user_static_first:
  "(click_element e t (JStr (add_user_button c)) \<longrightarrow>
      click_add_user e t c = (Inr True, t @ [Click (JStr (add_user_button c)) True]) \<and>
      finds (snd (click_add_user e t c)) = finds t) \<and>
   (\<not> click_element e t (JStr (add_user_button c)) \<longrightarrow>
      finds (snd (click_add_user e t c)) = finds t + 1 \<and>
      length (click_results (snd (click_add_user e t c))) \<le> length (click_results t) + 2)"
proof (intro conjI impI)
  assume ok: "click_element e t (JStr (add_user_button c))"
  then show r: "click_add_user e t c = (Inr True, t @ [Click (JStr (add_user_button c)) True])"
    by (simp add: click_add_user_def click_def Let_def)
  show "finds (snd (click_add_user e t c)) = finds t"
    by (simp add: r finds_def)
next
  assume no: "\<not> click_element e t (JStr (add_user_button c))"
  let ?t1 = "t @ [Click (JStr (add_user_button c)) False]"
  let ?h = "extract_page_content e ?t1"
  let ?k = "S ''Find the button to add a new user in the '' @ saas_name c @ S '' admin portal''"
  let ?t2 = "?t1 @ [Content ?h]"
  let ?t3 = "?t2 @ [Find ?h ?k]"
  let ?ui = "find_ui_elements e ?t2 ?h ?k"
  obtain r t' where p: "click_primary e ?t3 ?ui = (r, t')" by (cases "click_primary e ?t3 ?ui")
  have "t' = ?t3 \<or> (\<exists>sel ok. t' = ?t3 @ [Click sel ok])"
    using p by (cases r; cases "projr r") (auto dest: click_primary_cases)
  moreover have "snd (click_add_user e t c) = t'"
    using no p by (cases r; cases "projr r") (auto simp: click_add_user_def calls Let_def)
  ultimately have s: "snd (click_add_user e t c) = ?t3 \<or> (\<exists>sel ok. snd (click_add_user e t c) = ?t3 @ [Click sel ok])"
    by simp
  then show "finds (snd (click_add_user e t c)) = finds t + 1"
    by (auto simp: finds_def)
  from s show "length (click_results (snd (click_add_user e t c))) \<le> length (click_results t) + 2"
    by (auto simp: click_results_append)
qed

theorem add_user_static_first_witness:
  "click_element form_fails [] (JStr (add_user_button dropbox)) \<and>
   click_add_user form_fails [] dropbox = (Inr True, [] @ [Click (JStr (add_user_button dropbox)) True]) \<and>
   \<not> click_element low_confidence [] (JStr (add_user_button dropbox)) \<and>
   finds (snd (click_add_user low_confidence [] dropbox)) = finds [] + 1"
proof -
  have a: "click_element form_fails [] (JStr (add_user_button dropbox))"
    by (simp add: form_fails_def)
  have b: "\<not> click_element low_confidence [] (JStr (add_user_button dropbox))"
    by (simp add: low_confidence_def)
  show ?thesis
    using add_user_static_first[of form_fails "[]" dropbox] add_user_static_first[of low_confidence "[]" dropbox]
      a b by blast
qed

text \<open>
  A run against Claim C6 as stated: the static locators of the form fields fail, the oracle
  is never consulted, and \<open>provision_user\<close> returns \<open>False\<close>.
\<close>

theorem form_fields_no_fallback:
  "provision_user form_fails (S ''notion'') [] [(S ''email'', S ''a@x.com'')]
     = (False,
        [Login [] [] True, Navigate True, Content (S ''<html>''),
         Click (JStr (add_user_button notion)) True,
         Sleep 2,
         Fill [(S ''input[placeholder='Enter email address']'', S ''a@x.com'')] False]) \<and>
   finds [Login [] [] True, Navigate True, Content (S ''<html>''),
         Click (JStr (add_user_button notion)) True,
         Sleep 2,
         Fill [(S ''input[placeholder='Enter email address']'', S ''a@x.com'')] False] = 0"
  by (simp add: run_simps finds_def)


subsection \<open>The end of a run\<close>






end
